theory Spec2Isabelle
  imports Complex_Main "HOL-Library.Log_Nat"
begin

section \<open>Data model (app/models.py)\<close>

text \<open>
  The four enumerations of \<^verbatim>\<open>models.py\<close>. Each is declared \<^verbatim>\<open>class X(str, Enum)\<close>, a closed
  set of members; the constructors keep the member names.
\<close>

datatype SeverityLevel = NO_PROBLEM | UNCOMFORTABLE | PAIN | SEVERE_PAIN

datatype FrequencyLevel = NEVER | SOMETIMES | OFTEN | ALWAYS

datatype RiskLevel = GREEN | YELLOW | RED

datatype BodyPartType =
    NECK | SHOULDER_LEFT | SHOULDER_RIGHT | ARM_LEFT | ARM_RIGHT
  | ELBOW_LEFT | ELBOW_RIGHT | WRIST_LEFT | WRIST_RIGHT | HAND_LEFT | HAND_RIGHT
  | UPPER_BACK | LOWER_BACK | HIP_LEFT | HIP_RIGHT | THIGH_LEFT | THIGH_RIGHT
  | KNEE_LEFT | KNEE_RIGHT | ANKLE_LEFT | ANKLE_RIGHT

text \<open>
  Python does not enforce the annotations \<^verbatim>\<open>severity: SeverityLevel\<close>,
  \<^verbatim>\<open>frequency: FrequencyLevel\<close>, \<^verbatim>\<open>body_part: BodyPartType\<close>: a caller can pass any object.
  An argument annotated with an enumeration is therefore a member of it, or
  \<open>Foreign\<close>, which stands for any hashable object that compares unequal to every member
  (a string such as \<^verbatim>\<open>"Agony"\<close>, \<^verbatim>\<open>None\<close>, a member of another enumeration), or
  \<open>Unhashable\<close>, which stands for any unhashable object (a list, a dictionary, a set);
  such an object also compares unequal to every member. The objects meant are values of
  the built-in types and of the enumerations: an object of a class with its own
  \<^verbatim>\<open>__hash__\<close> or \<^verbatim>\<open>__eq__\<close> is outside the model.
\<close>

datatype 'e py_arg = Member 'e | Foreign | Unhashable

text \<open>
  Outcomes of a call: \<open>Inr v\<close> when the call returns \<open>v\<close>, \<open>Inl e\<close> when it raises.
  \<open>InvalidInput\<close> is the rejection of a value outside an enumeration that the
  specification asks for; \<open>TypeError\<close> is Python's own exception, raised by a dictionary
  lookup with an unhashable key and by an order comparison of a non-number with an
  integer; \<open>DivisionByZero\<close> and \<open>InvalidOperation\<close> are what \<^verbatim>\<open>Decimal.__truediv__\<close>
  raises on a zero divisor (the second for \<^verbatim>\<open>0 / 0\<close>).
\<close>

datatype error = InvalidInput | TypeError | DivisionByZero | InvalidOperation

section \<open>Discomfort scorer and risk classifiers (app/services.py)\<close>

text \<open>
  \<^verbatim>\<open>d.get(key, default)\<close> on a dictionary keyed by the members of an enumeration. The
  lookup hashes the key first, so an unhashable key raises \<^verbatim>\<open>TypeError\<close> and the default
  is not used.
\<close>

definition dict_get :: "('e \<rightharpoonup> 'v) \<Rightarrow> 'e py_arg \<Rightarrow> 'v \<Rightarrow> error + 'v" where
  "dict_get d key dflt =
     (case key of
        Member e \<Rightarrow> (case d e of Some v \<Rightarrow> Inr v | None \<Rightarrow> Inr dflt)
      | Foreign \<Rightarrow> Inr dflt
      | Unhashable \<Rightarrow> Inl TypeError)"

definition severity_scores :: "SeverityLevel \<rightharpoonup> int" where
  "severity_scores = [NO_PROBLEM \<mapsto> 1, UNCOMFORTABLE \<mapsto> 2, PAIN \<mapsto> 3, SEVERE_PAIN \<mapsto> 4]"

definition frequency_scores :: "FrequencyLevel \<rightharpoonup> int" where
  "frequency_scores = [NEVER \<mapsto> 1, SOMETIMES \<mapsto> 2, OFTEN \<mapsto> 3, ALWAYS \<mapsto> 4]"

text \<open>
  \<^verbatim>\<open>GotrakService.calculate_gotrak_score\<close>: two dictionary lookups with default 1, the
  severity first, and a product. The body has no \<^verbatim>\<open>raise\<close>; the only exception is the one
  a lookup raises.
\<close>

definition calculate_gotrak_score ::
  "SeverityLevel py_arg \<Rightarrow> FrequencyLevel py_arg \<Rightarrow> error + int" where
  "calculate_gotrak_score severity frequency =
     (case dict_get severity_scores severity 1 of
        Inl e \<Rightarrow> Inl e
      | Inr severity_score \<Rightarrow>
          (case dict_get frequency_scores frequency 1 of
             Inl e \<Rightarrow> Inl e
           | Inr frequency_score \<Rightarrow> Inr (severity_score * frequency_score)))"

text \<open>\<^verbatim>\<open>GotrakService.get_gotrak_risk_level\<close>.\<close>

definition get_gotrak_risk_level :: "int \<Rightarrow> RiskLevel" where
  "get_gotrak_risk_level gotrak_score =
     (if gotrak_score \<le> 4 then GREEN
      else if gotrak_score = 6 then YELLOW
      else RED)"

text \<open>\<^verbatim>\<open>RulaCalculationService.get_risk_level_from_rula_score\<close>.\<close>

definition get_risk_level_from_rula_score :: "int \<Rightarrow> RiskLevel" where
  "get_risk_level_from_rula_score rula_score =
     (if rula_score \<le> 2 then GREEN
      else if rula_score \<le> 4 then YELLOW
      else RED)"




section \<open>Posture scorer (app/services.py)\<close>

text \<open>
  An angle is a Python \<^verbatim>\<open>float\<close>. The scorer only compares it with integer literals, and
  Python compares a float with an integer exactly, so a finite float is modelled by the
  rational number it denotes; the three non-finite floats are kept apart. \<open>float_lt x c\<close>
  is \<^verbatim>\<open>x < c\<close>: false for NaN against anything.
\<close>

datatype pyfloat = Finite rat | PosInf | NegInf | NaN

fun float_lt :: "pyfloat \<Rightarrow> rat \<Rightarrow> bool" where
  "float_lt (Finite x) c = (x < c)"
| "float_lt PosInf c = False"
| "float_lt NegInf c = True"
| "float_lt NaN c = False"

text \<open>
  \<^verbatim>\<open>RulaCalculationService.calculate_rula_score\<close>. The result is the dictionary
  \<^verbatim>\<open>scores\<close>: empty when the key of the body part is missing from \<^verbatim>\<open>angles\<close>, otherwise
  holding \<^verbatim>\<open>"position_score"\<close> and \<^verbatim>\<open>"final_score"\<close>, the second always a copy of the first.
  The \<^verbatim>\<open>match\<close> statement compares \<^verbatim>\<open>body_part\<close> with the members by equality and
  never hashes it, so anything else, hashable or not, reaches \<^verbatim>\<open>case _\<close>.
\<close>

definition both_scores :: "int \<Rightarrow> (string \<rightharpoonup> int)" where
  "both_scores position_score =
     [''position_score'' \<mapsto> position_score, ''final_score'' \<mapsto> position_score]"

definition calculate_rula_score ::
  "(string \<rightharpoonup> pyfloat) \<Rightarrow> BodyPartType py_arg \<Rightarrow> error + (string \<rightharpoonup> int)" where
  "calculate_rula_score angles body_part =
     (if body_part = Member NECK then
        (case angles ''neck_flexion'' of
           None \<Rightarrow> Inr Map.empty
         | Some neck_angle \<Rightarrow>
             Inr (both_scores
               (if float_lt neck_angle 10 then 1
                else if float_lt neck_angle 20 then 2
                else 3)))
      else if body_part = Member ARM_LEFT \<or> body_part = Member ARM_RIGHT then
        (let arm_key = (if body_part = Member ARM_LEFT then ''left_upper_arm''
                        else ''right_upper_arm'')
         in case angles arm_key of
              None \<Rightarrow> Inr Map.empty
            | Some arm_angle \<Rightarrow>
                Inr (both_scores
                  (if float_lt arm_angle 20 then 1
                   else if float_lt arm_angle 45 then 2
                   else if float_lt arm_angle 90 then 3
                   else 4)))
      else if body_part = Member UPPER_BACK then
        (case angles ''trunk_flexion'' of
           None \<Rightarrow> Inr Map.empty
         | Some trunk_angle \<Rightarrow>
             Inr (both_scores
               (if float_lt trunk_angle 5 then 1
                else if float_lt trunk_angle 20 then 2
                else if float_lt trunk_angle 60 then 3
                else 4)))
      else Inr (both_scores 2))"

section \<open>Body-part assessment aggregator (app/services.py)\<close>

text \<open>
  The row type \<^verbatim>\<open>BodyPartAssessment\<close> of \<^verbatim>\<open>models.py\<close>, with the fields the scoring
  reads or writes (the primary key, the stored copy of the angles, the notes and the
  timestamps are left out). \<^verbatim>\<open>rula_score\<close> is an \<^verbatim>\<open>Optional[Decimal]\<close>: a finite
  \<^verbatim>\<open>Decimal\<close> is modelled by the rational number it denotes.
\<close>

record BodyPartAssessment =
  assessment_id :: int
  body_part :: BodyPartType
  rula_score :: "rat option"
  severity_level :: "SeverityLevel option"
  frequency_level :: "FrequencyLevel option"
  gotrak_score :: "int option"
  gotrak_risk_level :: "RiskLevel option"

text \<open>
  \<^verbatim>\<open>BodyPartAssessmentService.create_body_part_assessment\<close>. The table of
  \<^verbatim>\<open>body_part_assessments\<close> rows is passed in and returned with the new row added
  (\<^verbatim>\<open>session.add\<close>, \<^verbatim>\<open>session.commit\<close>). \<^verbatim>\<open>Decimal(str(n))\<close> of an integer \<open>n\<close> is exact.
  An exception of a callee propagates.
\<close>

definition create_body_part_assessment ::
  "BodyPartAssessment list \<Rightarrow> int \<Rightarrow> BodyPartType \<Rightarrow> (string \<rightharpoonup> pyfloat)
     \<Rightarrow> SeverityLevel \<Rightarrow> FrequencyLevel
     \<Rightarrow> error + (BodyPartAssessment \<times> BodyPartAssessment list)" where
  "create_body_part_assessment table aid part angles severity frequency =
     (case calculate_rula_score angles (Member part) of
        Inl e \<Rightarrow> Inl e
      | Inr rula_data \<Rightarrow>
          (case calculate_gotrak_score (Member severity) (Member frequency) of
             Inl e \<Rightarrow> Inl e
           | Inr score \<Rightarrow>
               (let row = \<lparr> assessment_id = aid,
                             body_part = part,
                             rula_score =
                               Some (of_int (case rula_data ''final_score'' of
                                               Some v \<Rightarrow> v | None \<Rightarrow> 2)),
                             severity_level = Some severity,
                             frequency_level = Some frequency,
                             gotrak_score = Some score,
                             gotrak_risk_level = Some (get_gotrak_risk_level score) \<rparr>
                in Inr (row, table @ [row]))))"

section \<open>Decimal arithmetic\<close>

text \<open>
  The posture scores are \<^verbatim>\<open>decimal.Decimal\<close> values and the session aggregator adds and
  divides them under Python's default context: precision 28, rounding
  \<^verbatim>\<open>ROUND_HALF_EVEN\<close>. Each operation computes the exact result and rounds it to 28
  significant digits. A finite \<^verbatim>\<open>Decimal\<close> is modelled by the rational it denotes; the
  exponent limits of the context (\<open>10\<close> to the power \<open>\<plusminus>999999\<close>) and the special values
  NaN and Infinity are outside the model.

  \<open>adjusted x\<close> is the exponent of the leading digit of \<open>x \<noteq> 0\<close>, the integer \<open>e\<close> with
  \<open>10\<^sup>e \<le> \<bar>x\<bar> < 10\<^sup>e\<^sup>+\<^sup>1\<close> (lemma \<open>adjusted_bounds\<close> below): for \<open>\<bar>x\<bar> \<ge> 1\<close> the number
  of digits of the integer part less one, for \<open>\<bar>x\<bar> < 1\<close> the negated number of digits of
  \<open>\<lceil>1 / \<bar>x\<bar>\<rceil> - 1\<close>.
\<close>

definition prec :: nat where
  "prec = 28"

definition adjusted :: "rat \<Rightarrow> int" where
  "adjusted x =
     (if 1 \<le> \<bar>x\<bar> then int (floorlog 10 (nat \<lfloor>\<bar>x\<bar>\<rfloor>)) - 1
      else - int (floorlog 10 (nat (\<lceil>1 / \<bar>x\<bar>\<rceil> - 1))))"

definition round_half_even :: "rat \<Rightarrow> int" where
  "round_half_even x =
     (let f = \<lfloor>x\<rfloor>; r = x - of_int f
      in if r < 1 / 2 then f
         else if 1 / 2 < r then f + 1
         else if even f then f
         else f + 1)"

definition round_prec :: "rat \<Rightarrow> rat" where
  "round_prec x =
     (if x = 0 then 0
      else let q = 10 powi (adjusted x - (int prec - 1))
           in of_int (round_half_even (x / q)) * q)"

text \<open>\<^verbatim>\<open>Decimal.__add__\<close> and \<^verbatim>\<open>Decimal.__truediv__\<close>.\<close>

definition dec_add :: "rat \<Rightarrow> rat \<Rightarrow> rat" where
  "dec_add a b = round_prec (a + b)"

definition dec_div :: "rat \<Rightarrow> rat \<Rightarrow> error + rat" where
  "dec_div a b =
     (if b = 0 then (if a = 0 then Inl InvalidOperation else Inl DivisionByZero)
      else Inr (round_prec (a / b)))"

text \<open>
  The builtin \<^verbatim>\<open>sum\<close>: a left fold of \<^verbatim>\<open>+\<close> from the integer 0; \<^verbatim>\<open>0 + d\<close> is already a
  \<^verbatim>\<open>Decimal\<close> addition.
\<close>

definition py_sum :: "rat list \<Rightarrow> rat" where
  "py_sum xs = foldl dec_add 0 xs"

section \<open>Session aggregator (app/questionnaire.py)\<close>

text \<open>
  \<^verbatim>\<open>BodyPartAssessmentService.get_assessment_body_parts\<close>: the rows of the table with
  the given \<^verbatim>\<open>assessment_id\<close>.
\<close>

definition get_assessment_body_parts ::
  "BodyPartAssessment list \<Rightarrow> int \<Rightarrow> BodyPartAssessment list" where
  "get_assessment_body_parts table aid = filter (\<lambda>row. assessment_id row = aid) table"

text \<open>
  \<^verbatim>\<open>GotrakQuestionnaireComponent._calculate_overall_scores\<close>. The component holds
  \<^verbatim>\<open>self.assessment_id : Optional[int]\<close>; \<^verbatim>\<open>not self.assessment_id\<close> is true for \<^verbatim>\<open>None\<close> and
  for 0. The two counts are \<^verbatim>\<open>sum(1 for bp in body_parts if ...)\<close>. The final
  \<^verbatim>\<open>Decimal(str(avg_rula))\<close> is exact.
\<close>

definition calculate_overall_scores ::
  "int option \<Rightarrow> BodyPartAssessment list \<Rightarrow> error + (rat \<times> RiskLevel)" where
  "calculate_overall_scores self_assessment_id table =
     (case self_assessment_id of
        None \<Rightarrow> Inr (2, GREEN)
      | Some aid \<Rightarrow>
          if aid = 0 then Inr (2, GREEN)
          else
            let body_parts = get_assessment_body_parts table aid
            in if body_parts = [] then Inr (2, GREEN)
               else
                 let rula_scores = List.map_filter rula_score body_parts
                 in case (if rula_scores \<noteq> []
                          then dec_div (py_sum rula_scores) (of_nat (length rula_scores))
                          else Inr 2) of
                      Inl e \<Rightarrow> Inl e
                    | Inr avg_rula \<Rightarrow>
                        let high_risk_count = (\<Sum>bp \<leftarrow> filter (\<lambda>bp. gotrak_risk_level bp = Some RED) body_parts. (1::nat));
                            moderate_risk_count = (\<Sum>bp \<leftarrow> filter (\<lambda>bp. gotrak_risk_level bp = Some YELLOW) body_parts. (1::nat));
                            overall_risk = (if high_risk_count > 0 then RED
                                            else if moderate_risk_count > 1 then YELLOW
                                            else GREEN)
                        in Inr (avg_rula, overall_risk))"

section \<open>Definitions from the specification's words\<close>

text \<open>
  The rank tables as the specification words them: rank(no-problem)=1,
  rank(uncomfortable)=2, rank(pain)=3, rank(severe-pain)=4, and rank(never)=1,
  rank(sometimes)=2, rank(often)=3, rank(always)=4.
\<close>

fun severity_rank :: "SeverityLevel \<Rightarrow> int" where
  "severity_rank NO_PROBLEM = 1"
| "severity_rank UNCOMFORTABLE = 2"
| "severity_rank PAIN = 3"
| "severity_rank SEVERE_PAIN = 4"

fun frequency_rank :: "FrequencyLevel \<Rightarrow> int" where
  "frequency_rank NEVER = 1"
| "frequency_rank SOMETIMES = 2"
| "frequency_rank OFTEN = 3"
| "frequency_rank ALWAYS = 4"

text \<open>
  The measurement a body part's threshold table reads, as the specification lists them:
  neck uses \<^verbatim>\<open>neck_flexion\<close>, left and right arm use \<^verbatim>\<open>left_upper_arm\<close> and
  \<^verbatim>\<open>right_upper_arm\<close>, upper back uses \<^verbatim>\<open>trunk_flexion\<close>; the other body parts have no
  table.
\<close>

fun measurement_key :: "BodyPartType \<Rightarrow> string option" where
  "measurement_key NECK = Some ''neck_flexion''"
| "measurement_key ARM_LEFT = Some ''left_upper_arm''"
| "measurement_key ARM_RIGHT = Some ''right_upper_arm''"
| "measurement_key UPPER_BACK = Some ''trunk_flexion''"
| "measurement_key _ = None"

text \<open>
  The order green < yellow < red of the risk levels, and the highest level among the
  discomfort classifications that the body parts of a session supply (green being the
  least level, the fold starts from it).
\<close>

fun risk_rank :: "RiskLevel \<Rightarrow> nat" where
  "risk_rank GREEN = 0"
| "risk_rank YELLOW = 1"
| "risk_rank RED = 2"

definition risk_max :: "RiskLevel \<Rightarrow> RiskLevel \<Rightarrow> RiskLevel" where
  "risk_max a b = (if risk_rank a \<le> risk_rank b then b else a)"

definition highest_discomfort :: "BodyPartAssessment list \<Rightarrow> RiskLevel" where
  "highest_discomfort bps = foldr risk_max (List.map_filter gotrak_risk_level bps) GREEN"

text \<open>
  The precedence rule of the session aggregator in the specification's words: red if
  some discomfort level is red, else yellow if strictly more than one is yellow, else
  green.
\<close>

definition overall_risk_of :: "RiskLevel option list \<Rightarrow> RiskLevel" where
  "overall_risk_of levels =
     (if Some RED \<in> set levels then RED
      else if 1 < count_list levels (Some YELLOW) then YELLOW
      else GREEN)"

section \<open>Example inputs\<close>

text \<open>
  An angle mapping that holds all four measurement keys with one value.
\<close>

definition all_keys :: "pyfloat \<Rightarrow> (string \<rightharpoonup> pyfloat)" where
  "all_keys x = [''neck_flexion'' \<mapsto> x, ''left_upper_arm'' \<mapsto> x,
                 ''right_upper_arm'' \<mapsto> x, ''trunk_flexion'' \<mapsto> x]"

text \<open>
  Rows of one session (assessment 1). The first three are what
  \<open>create_body_part_assessment\<close> stores for a neck at 5 degrees and for a left shoulder
  and a lower back, which have no threshold table (lemma \<open>rows_are_produced\<close>); the
  fourth is a row without a posture score and with a red discomfort level.
\<close>

definition row_neck :: BodyPartAssessment where
  "row_neck = \<lparr> assessment_id = 1, body_part = NECK, rula_score = Some 1,
       severity_level = Some NO_PROBLEM, frequency_level = Some NEVER,
       gotrak_score = Some 1, gotrak_risk_level = Some GREEN \<rparr>"

definition row_shoulder :: BodyPartAssessment where
  "row_shoulder = \<lparr> assessment_id = 1, body_part = SHOULDER_LEFT, rula_score = Some 2,
       severity_level = Some UNCOMFORTABLE, frequency_level = Some OFTEN,
       gotrak_score = Some 6, gotrak_risk_level = Some YELLOW \<rparr>"

definition row_lower_back :: BodyPartAssessment where
  "row_lower_back = \<lparr> assessment_id = 1, body_part = LOWER_BACK, rula_score = Some 2,
       severity_level = Some NO_PROBLEM, frequency_level = Some NEVER,
       gotrak_score = Some 1, gotrak_risk_level = Some GREEN \<rparr>"

definition row_unscored_red :: BodyPartAssessment where
  "row_unscored_red = \<lparr> assessment_id = 1, body_part = LOWER_BACK, rula_score = None,
       severity_level = Some SEVERE_PAIN, frequency_level = Some ALWAYS,
       gotrak_score = Some 16, gotrak_risk_level = Some RED \<rparr>"

section \<open>The discomfort scorer and the two classifiers\<close>

lemma severity_lookup: "dict_get severity_scores (Member s) 1 = Inr (severity_rank s)"
  by (cases s) (simp_all add: dict_get_def severity_scores_def)

lemma frequency_lookup: "dict_get frequency_scores (Member f) 1 = Inr (frequency_rank f)"
  by (cases f) (simp_all add: dict_get_def frequency_scores_def)


lemma severity_rank_range: "1 \<le> severity_rank s \<and> severity_rank s \<le> 4"
  by (cases s) simp_all

lemma frequency_rank_range: "1 \<le> frequency_rank f \<and> frequency_rank f \<le> 4"
  by (cases f) simp_all

text \<open>
  C4. For every severity level and every frequency level the discomfort scorer returns
  (it does not raise) exactly the product of the two ranks, and that product lies
  between 1 and 16.
\<close>

theorem C4_gotrak_score_is_rank_product:
  "calculate_gotrak_score (Member s) (Member f) = Inr (severity_rank s * frequency_rank f)
   \<and> 1 \<le> severity_rank s * frequency_rank f
   \<and> severity_rank s * frequency_rank f \<le> 16"
proof -
  have ret: "calculate_gotrak_score (Member s) (Member f)
             = Inr (severity_rank s * frequency_rank f)"
    by (simp add: calculate_gotrak_score_def severity_lookup frequency_lookup)
  have lo: "1 \<le> severity_rank s * frequency_rank f"
    by (cases s; cases f) simp_all
  have hi: "severity_rank s * frequency_rank f \<le> 16"
    by (cases s; cases f) simp_all
  from ret lo hi show ?thesis by blast
qed

text \<open>
  C3. On the scores 1 to 16 the discomfort classifier answers green exactly up to 4,
  yellow exactly at 6 and red on everything else, that is on 5 and on 7 to 16;
  in particular 5 is red, 6 is yellow, 4 is green and 16 is red.
\<close>

theorem C3_gotrak_risk_level_table:
  assumes "1 \<le> n" and "n \<le> 16"
  shows "(get_gotrak_risk_level n = GREEN \<longleftrightarrow> n \<le> 4)
       \<and> (get_gotrak_risk_level n = YELLOW \<longleftrightarrow> n = 6)
       \<and> (get_gotrak_risk_level n = RED \<longleftrightarrow> n = 5 \<or> 7 \<le> n)
       \<and> get_gotrak_risk_level 5 = RED
       \<and> get_gotrak_risk_level 6 = YELLOW
       \<and> get_gotrak_risk_level 4 = GREEN
       \<and> get_gotrak_risk_level 16 = RED"
  using assms unfolding get_gotrak_risk_level_def by auto

theorem C3_gotrak_risk_level_table_witness:
  "(1::int) \<le> 5 \<and> (5::int) \<le> 16
   \<and> get_gotrak_risk_level 5 = RED \<and> get_gotrak_risk_level 5 \<noteq> YELLOW"
proof -
  have lo: "(1::int) \<le> 5" and hi: "(5::int) \<le> 16" by simp_all
  from C3_gotrak_risk_level_table [OF lo hi] show ?thesis by simp
qed

text \<open>
  C9. The posture-score classifier answers green exactly up to 2, yellow exactly on
  3 and 4, red exactly above 4, on every integer. Its thresholds are not those of the
  discomfort classifier: the two disagree at 3 (yellow against green) and at 6 (red
  against yellow).
\<close>

theorem C9_rula_risk_level_table:
  "(get_risk_level_from_rula_score n = GREEN \<longleftrightarrow> n \<le> 2)
   \<and> (get_risk_level_from_rula_score n = YELLOW \<longleftrightarrow> 2 < n \<and> n \<le> 4)
   \<and> (get_risk_level_from_rula_score n = RED \<longleftrightarrow> 4 < n)
   \<and> get_risk_level_from_rula_score 3 = YELLOW \<and> get_gotrak_risk_level 3 = GREEN
   \<and> get_risk_level_from_rula_score 6 = RED \<and> get_gotrak_risk_level 6 = YELLOW"
  unfolding get_risk_level_from_rula_score_def get_gotrak_risk_level_def by auto

lemma gotrak_score_members:
  "calculate_gotrak_score (Member s) (Member f) = Inr (severity_rank s * frequency_rank f)"
  by (simp add: calculate_gotrak_score_def severity_lookup frequency_lookup)

lemma rank_product_values:
  "severity_rank s * frequency_rank f \<in> {1, 2, 3, 4, 6, 8, 9, 12, 16}"
  by (cases s; cases f) simp_all

lemma rank_product_achieved:
  assumes "n \<in> {1, 2, 3, 4, 6, 8, 9, 12, 16}"
  shows "\<exists>s f. calculate_gotrak_score (Member s) (Member f) = Inr n"
proof -
  have "calculate_gotrak_score (Member NO_PROBLEM) (Member NEVER) = Inr 1"
    "calculate_gotrak_score (Member UNCOMFORTABLE) (Member NEVER) = Inr 2"
    "calculate_gotrak_score (Member PAIN) (Member NEVER) = Inr 3"
    "calculate_gotrak_score (Member SEVERE_PAIN) (Member NEVER) = Inr 4"
    "calculate_gotrak_score (Member UNCOMFORTABLE) (Member OFTEN) = Inr 6"
    "calculate_gotrak_score (Member UNCOMFORTABLE) (Member ALWAYS) = Inr 8"
    "calculate_gotrak_score (Member PAIN) (Member OFTEN) = Inr 9"
    "calculate_gotrak_score (Member PAIN) (Member ALWAYS) = Inr 12"
    "calculate_gotrak_score (Member SEVERE_PAIN) (Member ALWAYS) = Inr 16"
    by (simp_all add: gotrak_score_members)
  with assms show ?thesis by auto
qed

lemma achieved_scores:
  "{n. \<exists>s f. calculate_gotrak_score (Member s) (Member f) = Inr n}
     = {1, 2, 3, 4, 6, 8, 9, 12, 16}"
proof
  show "{n. \<exists>s f. calculate_gotrak_score (Member s) (Member f) = Inr n}
          \<subseteq> {1, 2, 3, 4, 6, 8, 9, 12, 16}"
    using rank_product_values by (auto simp: gotrak_score_members)
  show "{1, 2, 3, 4, 6, 8, 9, 12, 16}
          \<subseteq> {n. \<exists>s f. calculate_gotrak_score (Member s) (Member f) = Inr n}"
    using rank_product_achieved by blast
qed

lemma achieved_with_level:
  "{n. \<exists>s f. calculate_gotrak_score (Member s) (Member f) = Inr n
            \<and> get_gotrak_risk_level n = l}
     = {n \<in> {1, 2, 3, 4, 6, 8, 9, 12, 16}. get_gotrak_risk_level n = l}"
  using achieved_scores by auto

text \<open>
  C10. For every severity and frequency level the discomfort score is one of
  1, 2, 3, 4, 6, 8, 9, 12, 16, never 5, and each of these nine scores is produced by
  some pair of levels: the set of achievable scores is exactly this set. Scoring a
  pair and classifying the score gives red exactly on the achievable scores
  8, 9, 12, 16 (each of them is reached and is red), yellow exactly on 6 and green
  exactly on 1, 2, 3, 4; the score 5, which the classifier would call red, is never
  reached.
\<close>

theorem C10_achievable_gotrak_scores:
  "(\<exists>n. calculate_gotrak_score (Member s) (Member f) = Inr n
        \<and> n \<in> {1, 2, 3, 4, 6, 8, 9, 12, 16}
        \<and> n \<noteq> 5
        \<and> (get_gotrak_risk_level n = RED \<longleftrightarrow> n \<in> {8, 9, 12, 16})
        \<and> (get_gotrak_risk_level n = YELLOW \<longleftrightarrow> n = 6)
        \<and> (get_gotrak_risk_level n = GREEN \<longleftrightarrow> n \<in> {1, 2, 3, 4}))
   \<and> {n. \<exists>s f. calculate_gotrak_score (Member s) (Member f) = Inr n}
       = {1, 2, 3, 4, 6, 8, 9, 12, 16}
   \<and> {n. \<exists>s f. calculate_gotrak_score (Member s) (Member f) = Inr n
              \<and> get_gotrak_risk_level n = RED} = {8, 9, 12, 16}
   \<and> {n. \<exists>s f. calculate_gotrak_score (Member s) (Member f) = Inr n
              \<and> get_gotrak_risk_level n = YELLOW} = {6}
   \<and> {n. \<exists>s f. calculate_gotrak_score (Member s) (Member f) = Inr n
              \<and> get_gotrak_risk_level n = GREEN} = {1, 2, 3, 4}
   \<and> get_gotrak_risk_level 5 = RED"
proof -
  let ?n = "severity_rank s * frequency_rank f"
  have ret: "calculate_gotrak_score (Member s) (Member f) = Inr ?n"
    by (rule gotrak_score_members)
  have mem: "?n \<in> {1, 2, 3, 4, 6, 8, 9, 12, 16}"
    by (rule rank_product_values)
  then have "?n \<noteq> 5
       \<and> (get_gotrak_risk_level ?n = RED \<longleftrightarrow> ?n \<in> {8, 9, 12, 16})
       \<and> (get_gotrak_risk_level ?n = YELLOW \<longleftrightarrow> ?n = 6)
       \<and> (get_gotrak_risk_level ?n = GREEN \<longleftrightarrow> ?n \<in> {1, 2, 3, 4})"
    unfolding get_gotrak_risk_level_def by auto
  with ret mem have one: "\<exists>n. calculate_gotrak_score (Member s) (Member f) = Inr n
        \<and> n \<in> {1, 2, 3, 4, 6, 8, 9, 12, 16}
        \<and> n \<noteq> 5
        \<and> (get_gotrak_risk_level n = RED \<longleftrightarrow> n \<in> {8, 9, 12, 16})
        \<and> (get_gotrak_risk_level n = YELLOW \<longleftrightarrow> n = 6)
        \<and> (get_gotrak_risk_level n = GREEN \<longleftrightarrow> n \<in> {1, 2, 3, 4})"
    by blast
  have red: "{n \<in> {1, 2, 3, 4, 6, 8, 9, 12, 16}. get_gotrak_risk_level n = RED}
             = {8, 9, 12, 16}"
    unfolding get_gotrak_risk_level_def by auto
  have yellow: "{n \<in> {1, 2, 3, 4, 6, 8, 9, 12, 16}. get_gotrak_risk_level n = YELLOW} = {6}"
    unfolding get_gotrak_risk_level_def by auto
  have green: "{n \<in> {1, 2, 3, 4, 6, 8, 9, 12, 16}. get_gotrak_risk_level n = GREEN}
               = {1, 2, 3, 4}"
    unfolding get_gotrak_risk_level_def by auto
  have five: "get_gotrak_risk_level 5 = RED"
    by (simp add: get_gotrak_risk_level_def)
  show ?thesis
    unfolding achieved_with_level red yellow green
    using one achieved_scores five by blast
qed

section \<open>The posture scorer and the body-part aggregator\<close>

lemma both_scores_inject: "both_scores a = both_scores b \<longleftrightarrow> a = b"
proof
  assume "both_scores a = both_scores b"
  then have "both_scores a ''final_score'' = both_scores b ''final_score''" by simp
  then show "a = b" by (simp add: both_scores_def)
qed simp

text \<open>
  C6. When the angle mapping holds the key of the body part, the posture scorer returns
  the dictionary whose \<^verbatim>\<open>position_score\<close> and \<^verbatim>\<open>final_score\<close> are both the tier of the
  half-open intervals: for the neck 1 below 10, 2 from 10 to below 20, 3 otherwise; for
  either arm 1 below 20, 2 below 45, 3 below 90, 4 otherwise; for the upper back
  1 below 5, 2 below 20, 3 below 60, 4 otherwise; for every other body part both
  entries are the fixed score 2. (\<open>float_lt (Finite a) c\<close> is \<open>a < c\<close>; the witness
  evaluates the neck at 10, at 9.999 and at 20.)
\<close>

theorem C6_posture_thresholds:
  "(angles ''neck_flexion'' = Some x \<longrightarrow>
      (\<exists>t. calculate_rula_score angles (Member NECK)
              = Inr [''position_score'' \<mapsto> t, ''final_score'' \<mapsto> t]
         \<and> (t = 1 \<longleftrightarrow> float_lt x 10)
         \<and> (t = 2 \<longleftrightarrow> \<not> float_lt x 10 \<and> float_lt x 20)
         \<and> (t = 3 \<longleftrightarrow> \<not> float_lt x 20)))
   \<and> (angles ''left_upper_arm'' = Some x \<longrightarrow>
      (\<exists>t. calculate_rula_score angles (Member ARM_LEFT)
              = Inr [''position_score'' \<mapsto> t, ''final_score'' \<mapsto> t]
         \<and> (t = 1 \<longleftrightarrow> float_lt x 20)
         \<and> (t = 2 \<longleftrightarrow> \<not> float_lt x 20 \<and> float_lt x 45)
         \<and> (t = 3 \<longleftrightarrow> \<not> float_lt x 45 \<and> float_lt x 90)
         \<and> (t = 4 \<longleftrightarrow> \<not> float_lt x 90)))
   \<and> (angles ''right_upper_arm'' = Some x \<longrightarrow>
      (\<exists>t. calculate_rula_score angles (Member ARM_RIGHT)
              = Inr [''position_score'' \<mapsto> t, ''final_score'' \<mapsto> t]
         \<and> (t = 1 \<longleftrightarrow> float_lt x 20)
         \<and> (t = 2 \<longleftrightarrow> \<not> float_lt x 20 \<and> float_lt x 45)
         \<and> (t = 3 \<longleftrightarrow> \<not> float_lt x 45 \<and> float_lt x 90)
         \<and> (t = 4 \<longleftrightarrow> \<not> float_lt x 90)))
   \<and> (angles ''trunk_flexion'' = Some x \<longrightarrow>
      (\<exists>t. calculate_rula_score angles (Member UPPER_BACK)
              = Inr [''position_score'' \<mapsto> t, ''final_score'' \<mapsto> t]
         \<and> (t = 1 \<longleftrightarrow> float_lt x 5)
         \<and> (t = 2 \<longleftrightarrow> \<not> float_lt x 5 \<and> float_lt x 20)
         \<and> (t = 3 \<longleftrightarrow> \<not> float_lt x 20 \<and> float_lt x 60)
         \<and> (t = 4 \<longleftrightarrow> \<not> float_lt x 60)))
   \<and> (part \<notin> {NECK, ARM_LEFT, ARM_RIGHT, UPPER_BACK} \<longrightarrow>
        calculate_rula_score angles (Member part)
          = Inr [''position_score'' \<mapsto> 2, ''final_score'' \<mapsto> 2])"
  unfolding calculate_rula_score_def both_scores_def by (cases x) (auto simp: Let_def)

theorem C6_posture_thresholds_witness:
  "calculate_rula_score (all_keys (Finite 10)) (Member NECK)
     = Inr [''position_score'' \<mapsto> 2, ''final_score'' \<mapsto> 2]
   \<and> calculate_rula_score (all_keys (Finite (9999 / 1000))) (Member NECK)
     = Inr [''position_score'' \<mapsto> 1, ''final_score'' \<mapsto> 1]
   \<and> calculate_rula_score (all_keys (Finite 20)) (Member NECK)
     = Inr [''position_score'' \<mapsto> 3, ''final_score'' \<mapsto> 3]
   \<and> calculate_rula_score (all_keys (Finite 20)) (Member ARM_LEFT)
     = Inr [''position_score'' \<mapsto> 2, ''final_score'' \<mapsto> 2]
   \<and> calculate_rula_score (all_keys (Finite 20)) (Member ARM_RIGHT)
     = Inr [''position_score'' \<mapsto> 2, ''final_score'' \<mapsto> 2]
   \<and> calculate_rula_score (all_keys (Finite 20)) (Member UPPER_BACK)
     = Inr [''position_score'' \<mapsto> 3, ''final_score'' \<mapsto> 3]
   \<and> calculate_rula_score (all_keys (Finite 20)) (Member LOWER_BACK)
     = Inr [''position_score'' \<mapsto> 2, ''final_score'' \<mapsto> 2]
   \<and> all_keys (Finite 20) ''neck_flexion'' = Some (Finite 20)
   \<and> all_keys (Finite 20) ''left_upper_arm'' = Some (Finite 20)
   \<and> all_keys (Finite 20) ''right_upper_arm'' = Some (Finite 20)
   \<and> all_keys (Finite 20) ''trunk_flexion'' = Some (Finite 20)
   \<and> LOWER_BACK \<notin> {NECK, ARM_LEFT, ARM_RIGHT, UPPER_BACK}"
proof -
  have a: "calculate_rula_score (all_keys (Finite 10)) (Member NECK)
     = Inr [''position_score'' \<mapsto> 2, ''final_score'' \<mapsto> 2]"
    using C6_posture_thresholds [of "all_keys (Finite 10)" "Finite 10" LOWER_BACK]
    by (auto simp: all_keys_def)
  have b: "calculate_rula_score (all_keys (Finite (9999 / 1000))) (Member NECK)
     = Inr [''position_score'' \<mapsto> 1, ''final_score'' \<mapsto> 1]"
    using C6_posture_thresholds [of "all_keys (Finite (9999 / 1000))" "Finite (9999 / 1000)"
        LOWER_BACK]
    by (auto simp: all_keys_def)
  have k: "all_keys (Finite 20) ''neck_flexion'' = Some (Finite 20)
   \<and> all_keys (Finite 20) ''left_upper_arm'' = Some (Finite 20)
   \<and> all_keys (Finite 20) ''right_upper_arm'' = Some (Finite 20)
   \<and> all_keys (Finite 20) ''trunk_flexion'' = Some (Finite 20)
   \<and> LOWER_BACK \<notin> {NECK, ARM_LEFT, ARM_RIGHT, UPPER_BACK}"
    by (simp add: all_keys_def)
  have c: "calculate_rula_score (all_keys (Finite 20)) (Member NECK)
     = Inr [''position_score'' \<mapsto> 3, ''final_score'' \<mapsto> 3]
   \<and> calculate_rula_score (all_keys (Finite 20)) (Member ARM_LEFT)
     = Inr [''position_score'' \<mapsto> 2, ''final_score'' \<mapsto> 2]
   \<and> calculate_rula_score (all_keys (Finite 20)) (Member ARM_RIGHT)
     = Inr [''position_score'' \<mapsto> 2, ''final_score'' \<mapsto> 2]
   \<and> calculate_rula_score (all_keys (Finite 20)) (Member UPPER_BACK)
     = Inr [''position_score'' \<mapsto> 3, ''final_score'' \<mapsto> 3]
   \<and> calculate_rula_score (all_keys (Finite 20)) (Member LOWER_BACK)
     = Inr [''position_score'' \<mapsto> 2, ''final_score'' \<mapsto> 2]"
    using C6_posture_thresholds [of "all_keys (Finite 20)" "Finite 20" LOWER_BACK] k
    by auto
  from a b c k show ?thesis by blast
qed

text \<open>
  C7. When the measurement key of a body part is missing from the angle mapping, the
  posture scorer returns the empty dictionary (no score) and does not raise, and the
  row that the body-part aggregator stores carries the default posture score 2.
\<close>

theorem C7_missing_angle_is_not_an_error:
  assumes "measurement_key part = Some k" and "angles k = None"
  shows "calculate_rula_score angles (Member part) = Inr Map.empty
       \<and> (\<exists>row. create_body_part_assessment table aid part angles sev freq
                   = Inr (row, table @ [row])
                \<and> rula_score row = Some 2)"
proof -
  have absent: "calculate_rula_score angles (Member part) = Inr Map.empty"
    using assms by (cases part) (simp_all add: calculate_rula_score_def)
  obtain n where n: "calculate_gotrak_score (Member sev) (Member freq) = Inr n"
    using gotrak_score_members by blast
  show ?thesis
    using absent n by (simp add: create_body_part_assessment_def Let_def)
qed

theorem C7_missing_angle_is_not_an_error_witness:
  "measurement_key NECK = Some ''neck_flexion''
   \<and> Map.empty ''neck_flexion'' = (None :: pyfloat option)
   \<and> calculate_rula_score Map.empty (Member NECK) = Inr Map.empty
   \<and> (\<exists>row. create_body_part_assessment [] 1 NECK Map.empty PAIN OFTEN = Inr (row, [row])
          \<and> rula_score row = Some 2)"
proof -
  have k: "measurement_key NECK = Some ''neck_flexion''" by simp
  have a: "Map.empty ''neck_flexion'' = (None :: pyfloat option)" by simp
  from C7_missing_angle_is_not_an_error [OF k a, of "[]" 1 PAIN OFTEN] k a
  show ?thesis by simp
qed



section \<open>Decimal rounding\<close>

text \<open>
  The exponent \<open>adjusted x\<close> is characterised by \<open>10\<^sup>e \<le> \<bar>x\<bar> < 10\<^sup>e\<^sup>+\<^sup>1\<close>; \<open>round_prec\<close>
  moves its argument by at most half a unit of the 28th significant digit and leaves
  every decimal of at most 28 significant digits unchanged.
\<close>

lemma pow10_le_of_nat:
  assumes "10 ^ j \<le> (n::nat)"
  shows "(10::rat) ^ j \<le> of_nat n"
proof -
  have "(of_nat (10 ^ j) :: rat) \<le> of_nat n"
    using assms by (simp only: of_nat_le_iff)
  then show ?thesis by simp
qed

lemma of_nat_Suc_le_pow10:
  assumes "(n::nat) < 10 ^ j"
  shows "(of_nat n :: rat) + 1 \<le> 10 ^ j"
proof -
  from assms have "Suc n \<le> 10 ^ j" by simp
  then have "(of_nat (Suc n) :: rat) \<le> of_nat (10 ^ j)"
    by (simp only: of_nat_le_iff)
  then show ?thesis by simp
qed

lemma floorlog10_bounds:
  assumes "0 < n"
  shows "0 < floorlog 10 n \<and> 10 ^ (floorlog 10 n - 1) \<le> n \<and> n < 10 ^ floorlog 10 n"
proof -
  have b: "10 ^ (floorlog 10 n - 1) \<le> n \<and> n < 10 ^ floorlog 10 n"
    using floorlog_bounds [of n 10] assms by simp
  have "floorlog 10 n \<noteq> 0"
    using assms by (simp add: floorlog_eq_zero_iff)
  with b show ?thesis by simp
qed

lemma adjusted_bounds_ge:
  assumes ge: "1 \<le> \<bar>x\<bar>"
  shows "10 powi adjusted x \<le> \<bar>x\<bar> \<and> \<bar>x\<bar> < 10 powi (adjusted x + 1)"
proof -
  define z where "z = \<lfloor>\<bar>x\<bar>\<rfloor>"
  define n where "n = nat z"
  define k where "k = floorlog 10 n"
  have z1: "1 \<le> z" unfolding z_def using ge by (simp add: le_floor_iff)
  have zn: "of_int z = (of_nat n :: rat)"
    unfolding n_def using z1 by simp
  have fc: "of_int z \<le> \<bar>x\<bar> \<and> \<bar>x\<bar> < of_int (z + 1)"
    unfolding z_def by (rule floor_correct)
  have n_le: "of_nat n \<le> \<bar>x\<bar>" using fc zn by simp
  have n_gt: "\<bar>x\<bar> < of_nat n + 1" using fc zn by simp
  have n_pos: "0 < n" unfolding n_def using z1 by simp
  note b = floorlog10_bounds [OF n_pos, folded k_def]
  have adj: "adjusted x = int (k - 1)"
    using ge b by (simp add: adjusted_def z_def [symmetric] n_def [symmetric] k_def [symmetric])
  have e: "int (k - 1) + 1 = int k" using b by simp
  have a1: "(10::rat) powi int (k - 1) = 10 ^ (k - 1)" by (rule power_int_of_nat)
  have a2: "(10::rat) powi int k = 10 ^ k" by (rule power_int_of_nat)
  have g1: "(10::rat) ^ (k - 1) \<le> \<bar>x\<bar>"
    using pow10_le_of_nat [of "k - 1" n] b n_le by linarith
  have g2: "\<bar>x\<bar> < (10::rat) ^ k"
    using of_nat_Suc_le_pow10 [of n k] b n_gt by linarith
  show ?thesis
    unfolding adj e a1 a2 using g1 g2 by (rule conjI)
qed

lemma adjusted_bounds_lt:
  assumes nz: "x \<noteq> 0" and lt: "\<not> 1 \<le> \<bar>x\<bar>"
  shows "10 powi adjusted x \<le> \<bar>x\<bar> \<and> \<bar>x\<bar> < 10 powi (adjusted x + 1)"
proof -
  define y where "y = 1 / \<bar>x\<bar>"
  define c where "c = \<lceil>y\<rceil>"
  define m where "m = nat (c - 1)"
  define k where "k = floorlog 10 m"
  have x_pos: "0 < \<bar>x\<bar>" using nz by simp
  have x_lt: "\<bar>x\<bar> < 1" using lt by simp
  have y_gt: "1 < y" unfolding y_def using x_pos x_lt by simp
  have y_pos: "0 < y" using y_gt by simp
  have cc: "of_int c - 1 < y \<and> y \<le> of_int c"
    unfolding c_def by (rule ceiling_correct)
  have "(1::rat) < of_int c" using cc y_gt by linarith
  then have c2: "2 \<le> c" by simp
  have cm: "(of_int c :: rat) - 1 = of_nat m"
  proof -
    have "(of_nat m :: rat) = of_int (c - 1)"
      unfolding m_def using c2 by simp
    then show ?thesis by simp
  qed
  have m_lt: "of_nat m < y" using cc cm by simp
  have m_ge: "y \<le> of_nat m + 1" using cc cm by linarith
  have m_pos: "0 < m" unfolding m_def using c2 by simp
  note b = floorlog10_bounds [OF m_pos, folded k_def]
  have adj: "adjusted x = - int k"
    using lt by (simp add: adjusted_def y_def [symmetric] c_def [symmetric]
        m_def [symmetric] k_def [symmetric])
  have y_le: "y \<le> 10 ^ k"
    using of_nat_Suc_le_pow10 [of m k] b m_ge by linarith
  have y_gt': "10 ^ (k - 1) < y"
    using pow10_le_of_nat [of "k - 1" m] b m_lt by linarith
  have x_eq: "\<bar>x\<bar> = 1 / y" unfolding y_def by simp
  have p1: "(10::rat) powi (- int k) = 1 / 10 ^ k"
    by (simp add: power_int_minus_divide)
  have e: "- int k + 1 = - int (k - 1)" using b by simp
  have p2: "(10::rat) powi (- int k + 1) = 1 / 10 ^ (k - 1)"
    unfolding e by (simp add: power_int_minus_divide)
  have r1: "1 / 10 ^ k \<le> 1 / y"
    using y_le y_pos by (simp add: frac_le)
  have r2: "1 / y < 1 / 10 ^ (k - 1)"
    using y_gt' by (simp add: frac_less2)
  show ?thesis
    unfolding adj p1 p2 x_eq using r1 r2 by (rule conjI)
qed

lemma adjusted_bounds:
  assumes "x \<noteq> 0"
  shows "10 powi adjusted x \<le> \<bar>x\<bar> \<and> \<bar>x\<bar> < 10 powi (adjusted x + 1)"
  using adjusted_bounds_ge [of x] adjusted_bounds_lt [OF assms] by blast

lemma adjusted_unique:
  assumes "10 powi a \<le> \<bar>x\<bar>" and "\<bar>x\<bar> < 10 powi (a + 1)"
  shows "adjusted x = a"
proof -
  have nz: "x \<noteq> 0"
  proof
    assume "x = 0"
    with assms(1) have "(10::rat) powi a \<le> 0" by simp
    moreover have "(0::rat) < 10 powi a" by (simp add: zero_less_power_int)
    ultimately show False by linarith
  qed
  note b = adjusted_bounds [OF nz]
  show ?thesis
  proof (rule ccontr)
    assume "adjusted x \<noteq> a"
    then consider "adjusted x + 1 \<le> a" | "a + 1 \<le> adjusted x" by linarith
    then show False
    proof cases
      case 1
      then have "(10::rat) powi (adjusted x + 1) \<le> 10 powi a"
        by (intro power_int_increasing) simp_all
      with b assms show False by linarith
    next
      case 2
      then have "(10::rat) powi (a + 1) \<le> 10 powi adjusted x"
        by (intro power_int_increasing) simp_all
      with b assms show False by linarith
    qed
  qed
qed

lemma round_half_even_of_int: "round_half_even (of_int m) = m"
  by (simp add: round_half_even_def)

lemma round_half_even_error: "\<bar>of_int (round_half_even y) - y\<bar> \<le> 1 / 2"
proof -
  have "of_int \<lfloor>y\<rfloor> \<le> y" "y < of_int \<lfloor>y\<rfloor> + 1" by linarith+
  then show ?thesis
    unfolding round_half_even_def Let_def by (auto simp: abs_le_iff)
qed

lemma adjusted_of_nat:
  assumes "0 < n"
  shows "adjusted (of_nat n) = int (floorlog 10 n) - 1"
proof -
  have "(1::rat) \<le> of_nat n" using assms by simp
  then show ?thesis by (simp add: adjusted_def)
qed

lemma round_prec_of_nat:
  assumes "n < 10 ^ prec"
  shows "round_prec (of_nat n) = of_nat n"
proof (cases "n = 0")
  case True
  then show ?thesis by (simp add: round_prec_def)
next
  case False
  then have pos: "0 < n" by simp
  define k where "k = floorlog 10 n"
  have k_le: "k \<le> prec"
    unfolding k_def using assms by (simp add: floorlog_le_iff)
  have k_pos: "0 < k"
  proof (rule ccontr)
    assume "\<not> 0 < k"
    then have "floorlog 10 n = 0" by (simp add: k_def)
    with pos show False by (simp add: floorlog_eq_zero_iff)
  qed
  have e: "adjusted (of_nat n) - (int prec - 1) = - int (prec - k)"
    using k_le k_pos by (simp add: adjusted_of_nat [OF pos] k_def [symmetric])
  have q: "(10::rat) powi (adjusted (of_nat n) - (int prec - 1)) = 1 / 10 ^ (prec - k)"
    unfolding e by (simp add: power_int_minus_divide)
  have "(of_nat n :: rat) / (1 / 10 ^ (prec - k)) = of_int (int (n * 10 ^ (prec - k)))"
    by simp
  then have r: "round_half_even (of_nat n / (1 / 10 ^ (prec - k))) = int (n * 10 ^ (prec - k))"
    by (simp only: round_half_even_of_int)
  show ?thesis
    using False unfolding round_prec_def Let_def q r by simp
qed

lemma round_prec_error:
  assumes "x \<noteq> 0"
  shows "\<bar>round_prec x - x\<bar> \<le> 10 powi (adjusted x - (int prec - 1)) / 2"
proof -
  define q :: rat where "q = 10 powi (adjusted x - (int prec - 1))"
  have q_pos: "0 < q" unfolding q_def by (simp add: zero_less_power_int)
  define r where "r = round_half_even (x / q)"
  have rp: "round_prec x = of_int r * q"
    using assms by (simp add: round_prec_def Let_def q_def r_def)
  have "\<bar>of_int r - x / q\<bar> \<le> 1 / 2"
    unfolding r_def by (rule round_half_even_error)
  then have "\<bar>of_int r - x / q\<bar> * q \<le> 1 / 2 * q"
    using q_pos by (simp only: mult_le_cancel_right_pos)
  moreover have "\<bar>of_int r - x / q\<bar> * q = \<bar>of_int r * q - x\<bar>"
  proof -
    have "\<bar>of_int r - x / q\<bar> * q = \<bar>(of_int r - x / q) * q\<bar>"
      using q_pos by (simp add: abs_mult)
    also have "(of_int r - x / q) * q = of_int r * q - x"
      using q_pos by (simp add: left_diff_distrib)
    finally show ?thesis .
  qed
  ultimately show ?thesis
    unfolding rp q_def [symmetric] by simp
qed

lemma round_prec_exact:
  assumes x: "x = of_int m * 10 powi e" and m: "\<bar>m\<bar> < 10 ^ prec"
  shows "round_prec x = x"
proof (cases "m = 0")
  case True
  then show ?thesis by (simp add: x round_prec_def)
next
  case False
  define n where "n = nat \<bar>m\<bar>"
  define k where "k = floorlog 10 n"
  have n_pos: "0 < n" unfolding n_def using False by simp
  have n_abs: "(of_nat n :: rat) = \<bar>of_int m\<bar>" unfolding n_def by simp
  have n_lt: "n < 10 ^ prec"
  proof -
    have "int n < int (10 ^ prec)" unfolding n_def using m by simp
    then show ?thesis by (simp only: of_nat_less_iff)
  qed
  note b = floorlog10_bounds [OF n_pos, folded k_def]
  have k_le: "k \<le> prec"
    unfolding k_def using n_lt by (simp add: floorlog_le_iff)
  have pe: "(0::rat) < 10 powi e" by (simp add: zero_less_power_int)
  have absx: "\<bar>x\<bar> = of_nat n * 10 powi e"
    unfolding x n_abs using pe by (simp add: abs_mult)
  have lo: "(10::rat) powi (int (k - 1) + e) \<le> \<bar>x\<bar>"
  proof -
    have "(10::rat) ^ (k - 1) * 10 powi e \<le> of_nat n * 10 powi e"
      using pow10_le_of_nat [of "k - 1" n] b pe by (simp only: mult_le_cancel_right_pos)
    then show ?thesis
      unfolding absx by (simp add: power_int_add)
  qed
  have hi: "\<bar>x\<bar> < (10::rat) powi (int (k - 1) + e + 1)"
  proof -
    have "(of_nat n :: rat) < 10 ^ k"
      using of_nat_Suc_le_pow10 [of n k] b by linarith
    then have "of_nat n * 10 powi e < (10::rat) ^ k * 10 powi e"
      using pe by (simp only: mult_less_cancel_right_pos)
    moreover have "int (k - 1) + e + 1 = int k + e" using b by simp
    ultimately show ?thesis
      unfolding absx by (simp add: power_int_add)
  qed
  have adj: "adjusted x = int (k - 1) + e"
    using lo hi by (rule adjusted_unique)
  have ex: "adjusted x - (int prec - 1) = e - int (prec - k)"
    unfolding adj using b k_le by simp
  define q :: rat where "q = 10 powi (e - int (prec - k))"
  have q_pos: "0 < q" unfolding q_def by (simp add: zero_less_power_int)
  have split: "(10::rat) powi e = 10 ^ (prec - k) * q"
    unfolding q_def by (simp add: power_int_diff)
  have quot: "x / q = of_int (m * 10 ^ (prec - k))"
    unfolding x split using q_pos by simp
  have nz: "x \<noteq> 0" unfolding x using False pe by simp
  have "round_prec x = of_int (round_half_even (x / q)) * q"
    unfolding round_prec_def Let_def ex q_def [symmetric] using nz by (simp only: if_False)
  also have "\<dots> = of_int (m * 10 ^ (prec - k)) * q"
    unfolding quot by (simp only: round_half_even_of_int)
  also have "\<dots> = x"
    unfolding x split by simp
  finally show ?thesis .
qed

section \<open>The session aggregator\<close>

lemma rows_are_produced:
  "create_body_part_assessment [] 1 NECK [''neck_flexion'' \<mapsto> Finite 5] NO_PROBLEM NEVER
     = Inr (row_neck, [row_neck])"
  "create_body_part_assessment [row_neck] 1 SHOULDER_LEFT [''neck_flexion'' \<mapsto> Finite 5]
     UNCOMFORTABLE OFTEN = Inr (row_shoulder, [row_neck, row_shoulder])"
  "create_body_part_assessment [row_neck, row_shoulder] 1 LOWER_BACK
     [''neck_flexion'' \<mapsto> Finite 5] NO_PROBLEM NEVER
     = Inr (row_lower_back, [row_neck, row_shoulder, row_lower_back])"
  by (simp_all add: create_body_part_assessment_def calculate_rula_score_def both_scores_def
      calculate_gotrak_score_def dict_get_def severity_scores_def frequency_scores_def
      get_gotrak_risk_level_def row_neck_def row_shoulder_def row_lower_back_def Let_def)

lemma count_ones:
  "(\<Sum>bp \<leftarrow> filter (\<lambda>bp. f bp = v) xs. (1::nat)) = count_list (map f xs) v"
  by (induction xs) simp_all

lemma foldl_dec_add_exact:
  assumes "a + sum_list ns < 10 ^ prec"
  shows "foldl dec_add (of_nat a) (map of_nat ns) = of_nat (a + sum_list ns)"
  using assms
proof (induction ns arbitrary: a)
  case Nil
  then show ?case by simp
next
  case (Cons n ns)
  have lt: "a + n < 10 ^ prec" using Cons.prems by simp
  have step: "dec_add (of_nat a) (of_nat n) = of_nat (a + n)"
    unfolding dec_add_def using round_prec_of_nat [OF lt] by simp
  have "foldl dec_add (of_nat (a + n)) (map of_nat ns) = of_nat (a + n + sum_list ns)"
    using Cons.prems by (intro Cons.IH) (simp add: add.assoc)
  then show ?case
    by (simp add: step add.assoc)
qed

lemma py_sum_exact:
  assumes "sum_list ns < 10 ^ prec"
  shows "py_sum (map of_nat ns) = of_nat (sum_list ns)"
  unfolding py_sum_def using foldl_dec_add_exact [of 0 ns] assms by simp

lemma calculate_overall_scores_empty:
  assumes "get_assessment_body_parts table aid = []"
  shows "calculate_overall_scores (Some aid) table = Inr (2, GREEN)"
  using assms by (simp add: calculate_overall_scores_def)

lemma overall_risk_eq:
  "(if 0 < (\<Sum>bp \<leftarrow> filter (\<lambda>bp. gotrak_risk_level bp = Some RED) bps. (1::nat)) then RED
    else if 1 < (\<Sum>bp \<leftarrow> filter (\<lambda>bp. gotrak_risk_level bp = Some YELLOW) bps. (1::nat))
         then YELLOW
    else GREEN) = overall_risk_of (map gotrak_risk_level bps)"
  unfolding count_ones overall_risk_of_def
  using count_list_0_iff [of "map gotrak_risk_level bps" "Some RED"] by auto

lemma calculate_overall_scores_nonempty:
  assumes aid: "aid \<noteq> 0"
    and bps: "get_assessment_body_parts table aid = bps"
    and ne: "bps \<noteq> []"
    and scores: "List.map_filter rula_score bps = scores"
  shows "calculate_overall_scores (Some aid) table =
           Inr (if scores = [] then 2
                else round_prec (py_sum scores / of_nat (length scores)),
                overall_risk_of (map gotrak_risk_level bps))"
proof (cases "scores = []")
  case True
  show ?thesis
    using aid ne True
    unfolding scores [symmetric] bps [symmetric] calculate_overall_scores_def Let_def
      overall_risk_eq
    by simp
next
  case False
  then have "dec_div (py_sum scores) (of_nat (length scores))
             = Inr (round_prec (py_sum scores / of_nat (length scores)))"
    by (simp add: dec_div_def)
  then show ?thesis
    using aid ne False
    unfolding scores [symmetric] bps [symmetric] calculate_overall_scores_def Let_def
      overall_risk_eq
    by simp
qed

lemma get_assessment_body_parts_all:
  assumes "\<forall>row \<in> set bps. assessment_id row = aid"
  shows "get_assessment_body_parts bps aid = bps"
  using assms unfolding get_assessment_body_parts_def by (induction bps) simp_all

lemma calculate_overall_scores_risk:
  assumes "aid \<noteq> 0" and "get_assessment_body_parts table aid = bps"
  shows "\<exists>score. calculate_overall_scores (Some aid) table
                  = Inr (score, overall_risk_of (map gotrak_risk_level bps))"
proof (cases "bps = []")
  case True
  then show ?thesis
    using assms calculate_overall_scores_empty [of table aid]
    by (simp add: overall_risk_of_def)
next
  case False
  from calculate_overall_scores_nonempty [OF assms False refl]
  show ?thesis by blast
qed

lemma table_rows:
  "get_assessment_body_parts [row_shoulder] 1 = [row_shoulder]"
  "get_assessment_body_parts [row_unscored_red] 1 = [row_unscored_red]"
  "get_assessment_body_parts [row_neck, row_shoulder] 1 = [row_neck, row_shoulder]"
  "get_assessment_body_parts [row_neck, row_shoulder, row_lower_back] 1
     = [row_neck, row_shoulder, row_lower_back]"
  "get_assessment_body_parts [row_neck, row_shoulder, row_unscored_red] 1
     = [row_neck, row_shoulder, row_unscored_red]"
  by (simp_all add: get_assessment_body_parts_def row_neck_def row_shoulder_def
      row_lower_back_def row_unscored_red_def)

lemma row_levels:
  "gotrak_risk_level row_neck = Some GREEN"
  "gotrak_risk_level row_shoulder = Some YELLOW"
  "gotrak_risk_level row_lower_back = Some GREEN"
  "gotrak_risk_level row_unscored_red = Some RED"
  by (simp_all add: row_neck_def row_shoulder_def row_lower_back_def row_unscored_red_def)

lemma row_scores:
  "rula_score row_neck = Some 1"
  "rula_score row_shoulder = Some 2"
  "rula_score row_lower_back = Some 2"
  "rula_score row_unscored_red = None"
  by (simp_all add: row_neck_def row_shoulder_def row_lower_back_def row_unscored_red_def)

text \<open>
  C1. For the body-part rows of the session that the aggregator reads, the overall
  risk is red if some discomfort level is red, otherwise yellow if strictly more than one
  is yellow, otherwise green; in particular exactly one yellow and no red gives green.
  (The component holds an assessment: its \<^verbatim>\<open>assessment_id\<close> is not 0.)
\<close>

theorem C1_overall_risk_precedence:
  assumes "aid \<noteq> 0" and "get_assessment_body_parts table aid = bps"
  shows "(\<exists>score. calculate_overall_scores (Some aid) table =
            Inr (score,
                 if Some RED \<in> set (map gotrak_risk_level bps) then RED
                 else if 1 < count_list (map gotrak_risk_level bps) (Some YELLOW) then YELLOW
                 else GREEN))
       \<and> (Some RED \<notin> set (map gotrak_risk_level bps)
            \<and> count_list (map gotrak_risk_level bps) (Some YELLOW) = 1
          \<longrightarrow> (\<exists>score. calculate_overall_scores (Some aid) table = Inr (score, GREEN)))"
  using calculate_overall_scores_risk [OF assms]
  unfolding overall_risk_of_def by auto

theorem C1_overall_risk_precedence_witness:
  "(1::int) \<noteq> 0
   \<and> get_assessment_body_parts [row_neck, row_shoulder, row_lower_back] 1
       = [row_neck, row_shoulder, row_lower_back]
   \<and> (\<exists>score. calculate_overall_scores (Some 1) [row_neck, row_shoulder, row_lower_back]
                = Inr (score, GREEN))
   \<and> (\<exists>score. calculate_overall_scores (Some 1) [row_neck, row_shoulder, row_unscored_red]
                = Inr (score, RED))"
proof -
  have nz: "(1::int) \<noteq> 0" by simp
  have a: "\<exists>score. calculate_overall_scores (Some 1) [row_neck, row_shoulder, row_lower_back]
                = Inr (score, GREEN)"
    using C1_overall_risk_precedence [OF nz table_rows(4)] by (simp add: row_levels)
  have b: "\<exists>score. calculate_overall_scores (Some 1) [row_neck, row_shoulder, row_unscored_red]
                = Inr (score, RED)"
    using C1_overall_risk_precedence [OF nz table_rows(5)] by (simp add: row_levels)
  from nz table_rows(4) a b show ?thesis by blast
qed

lemma count_list_map_filter:
  "count_list (map f xs) (Some v) = count_list (List.map_filter f xs) v"
  by (induction xs) (auto simp: List.map_filter_simps split: option.splits)

lemma set_map_filter:
  "Some v \<in> set (map f xs) \<longleftrightarrow> v \<in> set (List.map_filter f xs)"
  by (induction xs) (auto simp: List.map_filter_simps split: option.splits)

lemma foldr_risk_max_cases:
  "foldr risk_max ls GREEN =
     (if RED \<in> set ls then RED else if YELLOW \<in> set ls then YELLOW else GREEN)"
proof (induction ls)
  case Nil
  show ?case by simp
next
  case (Cons l ls)
  then show ?case by (cases l) (auto simp: risk_max_def)
qed

lemma highest_discomfort_is_max:
  assumes "List.map_filter gotrak_risk_level bps = levels" and "levels \<noteq> []"
  shows "highest_discomfort bps \<in> set levels
       \<and> (\<forall>l \<in> set levels. risk_rank l \<le> risk_rank (highest_discomfort bps))"
proof -
  have h: "highest_discomfort bps =
             (if RED \<in> set levels then RED else if YELLOW \<in> set levels then YELLOW else GREEN)"
    unfolding highest_discomfort_def assms(1) by (rule foldr_risk_max_cases)
  have mem: "highest_discomfort bps \<in> set levels"
  proof (cases "RED \<in> set levels \<or> YELLOW \<in> set levels")
    case True
    then show ?thesis unfolding h by auto
  next
    case False
    obtain l where l: "l \<in> set levels" using assms(2) by (cases levels) auto
    with False have "l = GREEN" by (cases l) auto
    with l False show ?thesis unfolding h by simp
  qed
  have ub: "risk_rank l \<le> risk_rank (highest_discomfort bps)" if "l \<in> set levels" for l
  proof (cases l)
    case GREEN
    then show ?thesis by simp
  next
    case YELLOW
    with that show ?thesis unfolding h by auto
  next
    case RED
    with that show ?thesis unfolding h by auto
  qed
  from mem ub show ?thesis by blast
qed

text \<open>
  C2, as stated, fails: a session whose only body part has a yellow discomfort level
  is classified green, which is below yellow.
\<close>

theorem C2_counterexample:
  "gotrak_risk_level row_shoulder = Some YELLOW
   \<and> calculate_overall_scores (Some 1) [row_shoulder] = Inr (2, GREEN)
   \<and> highest_discomfort [row_shoulder] = YELLOW
   \<and> risk_rank GREEN < risk_rank YELLOW"
proof -
  have s: "List.map_filter rula_score [row_shoulder] = map of_nat [2]"
    by (simp add: List.map_filter_simps row_scores)
  have sum: "py_sum (map of_nat [2]) = of_nat (sum_list [2])"
    by (rule py_sum_exact) (simp add: prec_def)
  have rp: "round_prec (of_nat 2) = of_nat 2"
    by (rule round_prec_of_nat) (simp add: prec_def)
  have calc: "calculate_overall_scores (Some 1) [row_shoulder] = Inr (2, GREEN)"
    using calculate_overall_scores_nonempty [OF _ table_rows(1) _ s] sum rp
    by (simp add: overall_risk_of_def row_levels)
  have hi: "highest_discomfort [row_shoulder] = YELLOW"
    by (simp add: highest_discomfort_def List.map_filter_simps row_levels risk_max_def)
  from row_levels(2) calc hi show ?thesis by simp
qed

text \<open>
  C2, amended. For a session with at least one discomfort classification the overall
  risk level equals the highest discomfort level of its body parts, except when exactly
  one body part is yellow and none is red: then the highest level is yellow and the
  overall level is green.
\<close>

theorem C2_overall_risk_against_highest:
  assumes "aid \<noteq> 0" and "get_assessment_body_parts table aid = bps"
    and "List.map_filter gotrak_risk_level bps = levels" and "levels \<noteq> []"
  shows "\<exists>score risk. calculate_overall_scores (Some aid) table = Inr (score, risk)
       \<and> (if RED \<notin> set levels \<and> count_list levels YELLOW = 1
           then highest_discomfort bps = YELLOW \<and> risk = GREEN
           else risk = highest_discomfort bps)"
proof -
  obtain score where r: "calculate_overall_scores (Some aid) table
      = Inr (score, overall_risk_of (map gotrak_risk_level bps))"
    using calculate_overall_scores_risk [OF assms(1,2)] by blast
  have h: "highest_discomfort bps =
             (if RED \<in> set levels then RED else if YELLOW \<in> set levels then YELLOW else GREEN)"
    unfolding highest_discomfort_def assms(3) by (rule foldr_risk_max_cases)
  have o: "overall_risk_of (map gotrak_risk_level bps) =
             (if RED \<in> set levels then RED
              else if 1 < count_list levels YELLOW then YELLOW else GREEN)"
    unfolding overall_risk_of_def count_list_map_filter set_map_filter assms(3) ..
  have y: "YELLOW \<in> set levels \<longleftrightarrow> 0 < count_list levels YELLOW"
    using count_list_0_iff [of levels YELLOW] by auto
  have "if RED \<notin> set levels \<and> count_list levels YELLOW = 1
        then highest_discomfort bps = YELLOW
             \<and> overall_risk_of (map gotrak_risk_level bps) = GREEN
        else overall_risk_of (map gotrak_risk_level bps) = highest_discomfort bps"
    unfolding h o y by auto
  with r show ?thesis by blast
qed

theorem C2_overall_risk_against_highest_witness:
  "(1::int) \<noteq> 0
   \<and> get_assessment_body_parts [row_neck, row_shoulder, row_unscored_red] 1
       = [row_neck, row_shoulder, row_unscored_red]
   \<and> List.map_filter gotrak_risk_level [row_neck, row_shoulder, row_unscored_red]
       = [GREEN, YELLOW, RED]
   \<and> [GREEN, YELLOW, RED] \<noteq> []
   \<and> (\<exists>score. calculate_overall_scores (Some 1) [row_neck, row_shoulder, row_unscored_red]
         = Inr (score, highest_discomfort [row_neck, row_shoulder, row_unscored_red]))
   \<and> (\<exists>score. calculate_overall_scores (Some 1) [row_neck, row_shoulder, row_lower_back]
         = Inr (score, GREEN))
   \<and> highest_discomfort [row_neck, row_shoulder, row_lower_back] = YELLOW"
proof -
  have nz: "(1::int) \<noteq> 0" by simp
  have l1: "List.map_filter gotrak_risk_level [row_neck, row_shoulder, row_unscored_red]
       = [GREEN, YELLOW, RED]"
    by (simp add: List.map_filter_simps row_levels)
  have l2: "List.map_filter gotrak_risk_level [row_neck, row_shoulder, row_lower_back]
       = [GREEN, YELLOW, GREEN]"
    by (simp add: List.map_filter_simps row_levels)
  have ne1: "[GREEN, YELLOW, RED] \<noteq> []" and ne2: "[GREEN, YELLOW, GREEN] \<noteq> []" by simp_all
  have a: "\<exists>score. calculate_overall_scores (Some 1) [row_neck, row_shoulder, row_unscored_red]
         = Inr (score, highest_discomfort [row_neck, row_shoulder, row_unscored_red])"
    using C2_overall_risk_against_highest [OF nz table_rows(5) l1 ne1] by simp
  have b: "(\<exists>score. calculate_overall_scores (Some 1) [row_neck, row_shoulder, row_lower_back]
         = Inr (score, GREEN))
      \<and> highest_discomfort [row_neck, row_shoulder, row_lower_back] = YELLOW"
    using C2_overall_risk_against_highest [OF nz table_rows(4) l2 ne2] by auto
  from nz table_rows(5) l1 ne1 a b show ?thesis by blast
qed

lemma sum_list_map_of_nat: "sum_list (map of_nat ns) = (of_nat (sum_list ns) :: rat)"
  by (induction ns) simp_all

lemma overall_score_rounded_mean:
  assumes aid: "aid \<noteq> 0"
    and bps: "get_assessment_body_parts table aid = bps"
    and scores: "List.map_filter rula_score bps = scores"
    and ns: "scores = map of_nat ns" "ns \<noteq> []" "sum_list ns < 10 ^ prec"
  shows "calculate_overall_scores (Some aid) table =
           Inr (round_prec (sum_list scores / of_nat (length scores)),
                overall_risk_of (map gotrak_risk_level bps))"
proof -
  have ne: "scores \<noteq> []" using ns by simp
  have "bps \<noteq> []"
  proof
    assume "bps = []"
    then have "scores = []" using scores by (simp add: List.map_filter_simps)
    with ne show False by simp
  qed
  from calculate_overall_scores_nonempty [OF aid bps this scores] ne
  have "calculate_overall_scores (Some aid) table =
           Inr (round_prec (py_sum scores / of_nat (length scores)),
                overall_risk_of (map gotrak_risk_level bps))"
    by simp
  moreover have "py_sum scores = sum_list scores"
    unfolding ns(1) sum_list_map_of_nat by (rule py_sum_exact [OF ns(3)])
  ultimately show ?thesis by simp
qed

text \<open>
  C8, as stated, fails twice. The posture scores 1, 2, 2 give the overall score
  1.666666666666666666666666667, which is not their mean 5/3: the division is a
  \<^verbatim>\<open>Decimal\<close> division. And a session whose only row has no posture score and a red
  discomfort level gets the score 2 and the risk red, not green.
\<close>

theorem C8_counterexample:
  "calculate_overall_scores (Some 1) [row_neck, row_shoulder, row_lower_back]
     = Inr (1666666666666666666666666667 / 10 ^ 27, GREEN)
   \<and> List.map_filter rula_score [row_neck, row_shoulder, row_lower_back] = [1, 2, 2]
   \<and> (1666666666666666666666666667 / 10 ^ 27 :: rat) \<noteq> (1 + 2 + 2) / 3
   \<and> List.map_filter rula_score [row_unscored_red] = []
   \<and> calculate_overall_scores (Some 1) [row_unscored_red] = Inr (2, RED)"
proof -
  have nz: "(1::int) \<noteq> 0" by simp
  have s: "List.map_filter rula_score [row_neck, row_shoulder, row_lower_back] = [1, 2, 2]"
    by (simp add: List.map_filter_simps row_scores)
  have ns: "[1, 2, 2] = map (of_nat :: nat \<Rightarrow> rat) [1, 2, 2]" by simp
  have ne: "[1, 2, 2 :: nat] \<noteq> []" by simp
  have lt: "sum_list [1, 2, 2 :: nat] < 10 ^ prec" by (simp add: prec_def)
  have fl: "\<lfloor>5000000000000000000000000000 / 3 :: rat\<rfloor> = 1666666666666666666666666666"
    by (simp add: floor_eq_iff)
  have rhe: "round_half_even (5000000000000000000000000000 / 3)
             = 1666666666666666666666666667"
    by (simp add: round_half_even_def Let_def fl)
  have fl1: "\<lfloor>5 / 3 :: rat\<rfloor> = 1" by (simp add: floor_eq_iff)
  have adj: "adjusted (5 / 3) = 0"
    by (simp add: adjusted_def compute_floorlog fl1)
  have q: "(5 / 3 :: rat) / 10 powi (0 - (int prec - 1)) = 5000000000000000000000000000 / 3"
    by (simp add: prec_def power_int_minus)
  have rp: "round_prec (5 / 3) = 1666666666666666666666666667 / 10 ^ 27"
    unfolding round_prec_def Let_def adj q rhe by (simp add: prec_def power_int_minus)
  have a: "calculate_overall_scores (Some 1) [row_neck, row_shoulder, row_lower_back]
     = Inr (1666666666666666666666666667 / 10 ^ 27, GREEN)"
    using overall_score_rounded_mean [OF nz table_rows(4) s ns ne lt] rp
    by (simp add: overall_risk_of_def row_levels)
  have b: "(1666666666666666666666666667 / 10 ^ 27 :: rat) \<noteq> (1 + 2 + 2) / 3" by simp
  have s0: "List.map_filter rula_score [row_unscored_red] = []"
    by (simp add: List.map_filter_simps row_scores)
  have c: "calculate_overall_scores (Some 1) [row_unscored_red] = Inr (2, RED)"
    using calculate_overall_scores_nonempty [OF nz table_rows(2) _ s0]
    by (simp add: overall_risk_of_def row_levels)
  from a s b s0 c show ?thesis by blast
qed

text \<open>
  C8, amended. The aggregator never raises. Without a present posture score the
  overall score is 2; for the empty sequence the result is score 2 and risk green, as it
  is when the component holds no assessment. When the present posture scores are
  natural numbers with a total below \<open>10\<^sup>2\<^sup>8\<close>, the overall score is their arithmetic mean
  rounded half-even to 28 significant digits, and it is the mean itself whenever the
  mean is a decimal of at most 28 significant digits. The overall risk follows the
  discomfort levels alone (C1).
\<close>

theorem C8_overall_score:
  assumes "aid \<noteq> 0" and "get_assessment_body_parts table aid = bps"
    and "List.map_filter rula_score bps = scores"
  shows "\<exists>score risk. calculate_overall_scores (Some aid) table = Inr (score, risk)
       \<and> (scores = [] \<longrightarrow> score = 2)
       \<and> (bps = [] \<longrightarrow> score = 2 \<and> risk = GREEN)
       \<and> (scores = map of_nat ns \<and> ns \<noteq> [] \<and> sum_list ns < 10 ^ prec \<longrightarrow>
            score = round_prec (sum_list scores / of_nat (length scores)))
       \<and> (scores = map of_nat ns \<and> ns \<noteq> [] \<and> sum_list ns < 10 ^ prec
            \<and> sum_list scores / of_nat (length scores) = of_int m * 10 powi e
            \<and> \<bar>m\<bar> < 10 ^ prec \<longrightarrow>
            score = sum_list scores / of_nat (length scores))
       \<and> calculate_overall_scores None table = Inr (2, GREEN)
       \<and> calculate_overall_scores (Some 0) table = Inr (2, GREEN)"
proof -
  have d: "calculate_overall_scores None table = Inr (2, GREEN)
       \<and> calculate_overall_scores (Some 0) table = Inr (2, GREEN)"
    by (simp add: calculate_overall_scores_def)
  show ?thesis
  proof (cases "bps = []")
    case True
    then have "scores = []" using assms(3) by (simp add: List.map_filter_simps)
    moreover have "calculate_overall_scores (Some aid) table = Inr (2, GREEN)"
      using calculate_overall_scores_empty assms(2) True by simp
    ultimately show ?thesis using d by auto
  next
    case False
    note r = calculate_overall_scores_nonempty [OF assms(1,2) False assms(3)]
    show ?thesis
    proof (cases "scores = map of_nat ns \<and> ns \<noteq> [] \<and> sum_list ns < 10 ^ prec")
      case True
      then have ns: "scores = map of_nat ns" "ns \<noteq> []" "sum_list ns < 10 ^ prec"
        by simp_all
      note rm = overall_score_rounded_mean [OF assms ns]
      have ne: "scores \<noteq> []" using ns by simp
      have ex: "round_prec (sum_list scores / of_nat (length scores))
                  = sum_list scores / of_nat (length scores)"
        if "sum_list scores / of_nat (length scores) = of_int m * 10 powi e"
          and "\<bar>m\<bar> < 10 ^ prec"
        using that by (rule round_prec_exact)
      show ?thesis
        using rm ne False d ex by auto
    next
      case F: False
      show ?thesis
        using r False d F by auto
    qed
  qed
qed

theorem C8_overall_score_witness:
  "(1::int) \<noteq> 0
   \<and> get_assessment_body_parts [row_neck, row_shoulder] 1 = [row_neck, row_shoulder]
   \<and> List.map_filter rula_score [row_neck, row_shoulder] = map of_nat [1, 2]
   \<and> [1, 2 :: nat] \<noteq> [] \<and> sum_list [1, 2 :: nat] < 10 ^ prec
   \<and> sum_list (map of_nat [1, 2]) / of_nat (length (map (of_nat :: nat \<Rightarrow> rat) [1, 2]))
       = (of_int 15 * 10 powi (- 1) :: rat)
   \<and> \<bar>15 :: int\<bar> < 10 ^ prec
   \<and> (\<exists>risk. calculate_overall_scores (Some 1) [row_neck, row_shoulder] = Inr (3 / 2, risk))
   \<and> (\<exists>risk. calculate_overall_scores (Some 1) [row_neck, row_shoulder, row_lower_back]
         = Inr (round_prec (5 / 3), risk))
   \<and> (\<exists>risk. calculate_overall_scores (Some 1) [row_unscored_red] = Inr (2, risk))
   \<and> calculate_overall_scores (Some 1) [] = Inr (2, GREEN)"
proof -
  have nz: "(1::int) \<noteq> 0" by simp
  have s2: "List.map_filter rula_score [row_neck, row_shoulder] = map of_nat [1, 2]"
    by (simp add: List.map_filter_simps row_scores)
  have ne2: "[1, 2 :: nat] \<noteq> []" by simp
  have lt2: "sum_list [1, 2 :: nat] < 10 ^ prec" by (simp add: prec_def)
  have mean2: "sum_list (map of_nat [1, 2])
        / of_nat (length (map (of_nat :: nat \<Rightarrow> rat) [1, 2])) = (of_int 15 * 10 powi (- 1) :: rat)"
    by (simp add: power_int_minus)
  have m2: "\<bar>15 :: int\<bar> < 10 ^ prec" by (simp add: prec_def)
  have a: "\<exists>risk. calculate_overall_scores (Some 1) [row_neck, row_shoulder] = Inr (3 / 2, risk)"
  proof -
    from C8_overall_score [OF nz table_rows(3) s2, of "[1, 2]" 15 "- 1"]
    obtain score risk where
      r: "calculate_overall_scores (Some 1) [row_neck, row_shoulder] = Inr (score, risk)"
      and ex: "map of_nat [1, 2] = map (of_nat :: nat \<Rightarrow> rat) [1, 2] \<and> [1, 2 :: nat] \<noteq> []
          \<and> sum_list [1, 2 :: nat] < 10 ^ prec
          \<and> sum_list (map of_nat [1, 2]) / of_nat (length (map (of_nat :: nat \<Rightarrow> rat) [1, 2]))
              = (of_int 15 * 10 powi (- 1) :: rat)
          \<and> \<bar>15 :: int\<bar> < 10 ^ prec \<longrightarrow>
          score = sum_list (map of_nat [1, 2])
                  / of_nat (length (map (of_nat :: nat \<Rightarrow> rat) [1, 2]))"
      by blast
    from ex ne2 lt2 mean2 m2
    have "score = sum_list (map of_nat [1, 2])
                  / of_nat (length (map (of_nat :: nat \<Rightarrow> rat) [1, 2]))"
      by blast
    then have "score = 3 / 2" by simp
    with r show ?thesis by blast
  qed
  have s3: "List.map_filter rula_score [row_neck, row_shoulder, row_lower_back]
            = map of_nat [1, 2, 2]"
    by (simp add: List.map_filter_simps row_scores)
  have ne3: "[1, 2, 2 :: nat] \<noteq> []" by simp
  have lt3: "sum_list [1, 2, 2 :: nat] < 10 ^ prec" by (simp add: prec_def)
  have b: "\<exists>risk. calculate_overall_scores (Some 1) [row_neck, row_shoulder, row_lower_back]
         = Inr (round_prec (5 / 3), risk)"
  proof -
    from C8_overall_score [OF nz table_rows(4) s3, of "[1, 2, 2]"]
    obtain score risk where
      r: "calculate_overall_scores (Some 1) [row_neck, row_shoulder, row_lower_back]
            = Inr (score, risk)"
      and rd: "map of_nat [1, 2, 2] = map (of_nat :: nat \<Rightarrow> rat) [1, 2, 2]
          \<and> [1, 2, 2 :: nat] \<noteq> [] \<and> sum_list [1, 2, 2 :: nat] < 10 ^ prec \<longrightarrow>
          score = round_prec (sum_list (map of_nat [1, 2, 2])
                  / of_nat (length (map (of_nat :: nat \<Rightarrow> rat) [1, 2, 2])))"
      by blast
    from rd ne3 lt3
    have "score = round_prec (sum_list (map of_nat [1, 2, 2])
                  / of_nat (length (map (of_nat :: nat \<Rightarrow> rat) [1, 2, 2])))"
      by blast
    then have "score = round_prec (5 / 3)" by simp
    with r show ?thesis by blast
  qed
  have s0: "List.map_filter rula_score [row_unscored_red] = []"
    by (simp add: List.map_filter_simps row_scores)
  have c: "\<exists>risk. calculate_overall_scores (Some 1) [row_unscored_red] = Inr (2, risk)"
    using C8_overall_score [OF nz table_rows(2) s0] by blast
  have e0: "get_assessment_body_parts [] 1 = []"
    by (simp add: get_assessment_body_parts_def)
  have m0: "List.map_filter rula_score [] = []"
    by (simp add: List.map_filter_simps)
  have d: "calculate_overall_scores (Some 1) [] = Inr (2, GREEN)"
    using C8_overall_score [OF nz e0 m0] by auto
  from nz table_rows(3) s2 ne2 lt2 mean2 m2 a b c d show ?thesis by blast
qed

end
